theory Spec2Isabelle
  imports Main "HOL-Library.Word" "HOL-Library.Sublist"
begin

section \<open>The runtime interface used by the stubs\<close>

text \<open>
  \<^verbatim>\<open>caml/mlvalues.h\<close>: a \<^verbatim>\<open>value\<close> is one machine word of the target. The stubs are
  built for WASI, a 32-bit target.
\<close>

type_synonym caml_value = "32 word"

text \<open>
  The process state that the real primitives (\<^verbatim>\<open>dup\<close>, \<^verbatim>\<open>sigprocmask\<close>, \<^verbatim>\<open>umask\<close>,
  \<^verbatim>\<open>setuid\<close>, \<^verbatim>\<open>chmod\<close>, ...) read and change on a platform that has them, together
  with what the process has written so far.
\<close>

record process_state =
  open_fds :: "nat list"
  signal_mask :: "nat list"
  pending_signals :: "nat list"
  file_creation_mask :: nat
  user_id :: nat
  group_id :: nat
  file_modes :: "(string \<times> nat) list"
  written :: "(nat \<times> string) list"
  log_lines :: "string list"

text \<open>
  The exceptions a C primitive can raise through \<^verbatim>\<open>caml/fail.h\<close>. A primitive either
  returns a value or raises; both leave a process state behind.
\<close>

datatype caml_exception =
    Out_of_memory
  | Stack_overflow
  | Sys_error string
  | Failure string
  | Invalid_argument string
  | End_of_file
  | Division_by_zero
  | Not_found
  | Sys_blocked_io

type_synonym caml_outcome = "(caml_exception + caml_value) \<times> process_state"

type_synonym caml_prim_result = "process_state \<Rightarrow> caml_outcome"

text \<open>
  Modelled from the spec: \<^verbatim>\<open>caml_invalid_argument\<close> is declared in \<^verbatim>\<open>caml/fail.h\<close> and
  defined in the runtime, which is not among the sources at hand. It does not return:
  it raises the exception \<^verbatim>\<open>Invalid_argument\<close> carrying the given message to the
  caller, as an ordinary recoverable error, and does nothing else that can be observed
  (no I/O, no change of process state, no logging).
\<close>

definition caml_invalid_argument :: "string \<Rightarrow> caml_prim_result" where
  "caml_invalid_argument msg = (\<lambda>s. (Inl (Invalid_argument msg), s))"


section \<open>\<^verbatim>\<open>otherlibs/unix/wasi_unavailable.c\<close>\<close>

text \<open>
  A C primitive is a function of one to five values; the signature fixes the number.
\<close>

datatype c_primitive =
    Prim1 "caml_value \<Rightarrow> caml_prim_result"
  | Prim2 "caml_value \<Rightarrow> caml_value \<Rightarrow> caml_prim_result"
  | Prim3 "caml_value \<Rightarrow> caml_value \<Rightarrow> caml_value \<Rightarrow> caml_prim_result"
  | Prim4 "caml_value \<Rightarrow> caml_value \<Rightarrow> caml_value \<Rightarrow> caml_value \<Rightarrow> caml_prim_result"
  | Prim5 "caml_value \<Rightarrow> caml_value \<Rightarrow> caml_value \<Rightarrow> caml_value \<Rightarrow> caml_value
             \<Rightarrow> caml_prim_result"

text \<open>
  What one use of an \<^verbatim>\<open>UNAVAILABLEn(cname, camlname)\<close> macro puts into the object file:
  a function under the symbol \<^verbatim>\<open>cname\<close>. The second macro argument is kept beside it:
  it is the name of the primitive on the OCaml side.
\<close>

record shim =
  c_name :: string
  caml_name :: string
  c_fun :: c_primitive

definition UNAVAILABLE1 :: "string \<Rightarrow> string \<Rightarrow> shim" where
  "UNAVAILABLE1 cname camlname =
     \<lparr>c_name = cname, caml_name = camlname,
      c_fun = Prim1 (\<lambda>arg1. caml_invalid_argument (camlname @ '' not available''))\<rparr>"

definition UNAVAILABLE2 :: "string \<Rightarrow> string \<Rightarrow> shim" where
  "UNAVAILABLE2 cname camlname =
     \<lparr>c_name = cname, caml_name = camlname,
      c_fun = Prim2 (\<lambda>arg1 arg2. caml_invalid_argument (camlname @ '' not available''))\<rparr>"

definition UNAVAILABLE3 :: "string \<Rightarrow> string \<Rightarrow> shim" where
  "UNAVAILABLE3 cname camlname =
     \<lparr>c_name = cname, caml_name = camlname,
      c_fun = Prim3 (\<lambda>arg1 arg2 arg3. caml_invalid_argument (camlname @ '' not vailable''))\<rparr>"

definition UNAVAILABLE4 :: "string \<Rightarrow> string \<Rightarrow> shim" where
  "UNAVAILABLE4 cname camlname =
     \<lparr>c_name = cname, caml_name = camlname,
      c_fun = Prim4 (\<lambda>arg1 arg2 arg3 arg4.
                caml_invalid_argument (camlname @ '' not available''))\<rparr>"

definition UNAVAILABLE5 :: "string \<Rightarrow> string \<Rightarrow> shim" where
  "UNAVAILABLE5 cname camlname =
     \<lparr>c_name = cname, caml_name = camlname,
      c_fun = Prim5 (\<lambda>arg1 arg2 arg3 arg4 arg5.
                caml_invalid_argument (camlname @ '' not available''))\<rparr>"

definition unix_wait :: shim where
  "unix_wait = UNAVAILABLE1 ''unix_wait'' ''Unix.wait''"

definition unix_waitpid :: shim where
  "unix_waitpid = UNAVAILABLE2 ''unix_waitpid'' ''Unix.waitpid''"

definition unix_sigprocmask :: shim where
  "unix_sigprocmask = UNAVAILABLE2 ''unix_sigprocmask'' ''Unix.sigprocmask''"

definition unix_sigpending :: shim where
  "unix_sigpending = UNAVAILABLE1 ''unix_sigpending'' ''Unix.sigpending''"

definition unix_sigsuspend :: shim where
  "unix_sigsuspend = UNAVAILABLE1 ''unix_sigsuspend'' ''Unix.sigsuspend''"

definition unix_kill :: shim where
  "unix_kill = UNAVAILABLE2 ''unix_kill'' ''Unix.kill''"

definition unix_getpwnam :: shim where
  "unix_getpwnam = UNAVAILABLE1 ''unix_getpwnam'' ''Unix.getpwnam''"

definition unix_getpwuid :: shim where
  "unix_getpwuid = UNAVAILABLE1 ''unix_getpwuid'' ''Unix.getpwuid''"

definition unix_getgrnam :: shim where
  "unix_getgrnam = UNAVAILABLE1 ''unix_getgrnam'' ''Unix.getgrnam''"

definition unix_getgrgid :: shim where
  "unix_getgrgid = UNAVAILABLE1 ''unix_getgrgid'' ''Unix.getgrgid''"

definition unix_alarm :: shim where
  "unix_alarm = UNAVAILABLE1 ''unix_alarm'' ''Unix.alarm''"

definition unix_chmod :: shim where
  "unix_chmod = UNAVAILABLE2 ''unix_chmod'' ''Unix.chmod''"

definition unix_chown :: shim where
  "unix_chown = UNAVAILABLE3 ''unix_chown'' ''Unix.chown''"

definition unix_chroot :: shim where
  "unix_chroot = UNAVAILABLE1 ''unix_chroot'' ''Unix.chroot''"

definition unix_dup :: shim where
  "unix_dup = UNAVAILABLE2 ''unix_dup'' ''Unix.dup''"

definition unix_dup2 :: shim where
  "unix_dup2 = UNAVAILABLE3 ''unix_dup2'' ''Unix.dup2''"

definition unix_execv :: shim where
  "unix_execv = UNAVAILABLE2 ''unix_execv'' ''Unix.execv''"

definition unix_execve :: shim where
  "unix_execve = UNAVAILABLE3 ''unix_execve'' ''Unix.execve''"

definition unix_execvp :: shim where
  "unix_execvp = UNAVAILABLE2 ''unix_execvp'' ''Unix.execvp''"

definition unix_execvpe :: shim where
  "unix_execvpe = UNAVAILABLE3 ''unix_execvpe'' ''Unix.execvpe''"

definition unix_fork :: shim where
  "unix_fork = UNAVAILABLE1 ''unix_fork'' ''Unix.fork''"

definition unix_getegid :: shim where
  "unix_getegid = UNAVAILABLE1 ''unix_getegid'' ''Unix.getegid''"

definition unix_geteuid :: shim where
  "unix_geteuid = UNAVAILABLE1 ''unix_geteuid'' ''Unix.geteuid''"

definition unix_getgid :: shim where
  "unix_getgid = UNAVAILABLE1 ''unix_getgid'' ''Unix.getgid''"

definition unix_getlogin :: shim where
  "unix_getlogin = UNAVAILABLE1 ''unix_getlogin'' ''Unix.getlogin''"

definition unix_getuid :: shim where
  "unix_getuid = UNAVAILABLE1 ''unix_getuid'' ''Unix.getuid''"

definition unix_gethostname :: shim where
  "unix_gethostname = UNAVAILABLE1 ''unix_gethostname'' ''Unix.gethostname''"

definition unix_getpid :: shim where
  "unix_getpid = UNAVAILABLE1 ''unix_getpid'' ''Unix.getpid''"

definition unix_getppid :: shim where
  "unix_getppid = UNAVAILABLE1 ''unix_getppid'' ''Unix.getppid''"

definition unix_mkfifo :: shim where
  "unix_mkfifo = UNAVAILABLE2 ''unix_mkfifo'' ''Unix.mkfifo''"

definition unix_pipe :: shim where
  "unix_pipe = UNAVAILABLE2 ''unix_pipe'' ''Unix.pipe''"

definition unix_setgid :: shim where
  "unix_setgid = UNAVAILABLE1 ''unix_setgid'' ''Unix.setgid''"

definition unix_setsid :: shim where
  "unix_setsid = UNAVAILABLE1 ''unix_setsid'' ''Unix.setsid''"

definition unix_setuid :: shim where
  "unix_setuid = UNAVAILABLE1 ''unix_setuid'' ''Unix.setuid''"

definition unix_spawn :: shim where
  "unix_spawn = UNAVAILABLE5 ''unix_spawn'' ''Unix.spawn''"

definition unix_umask :: shim where
  "unix_umask = UNAVAILABLE1 ''unix_umask'' ''Unix.umask''"

text \<open>The file as a whole: its 36 definitions, in the order of the text.\<close>

definition catalog :: "shim list" where
  "catalog =
     [unix_wait, unix_waitpid, unix_sigprocmask, unix_sigpending, unix_sigsuspend,
      unix_kill, unix_getpwnam, unix_getpwuid, unix_getgrnam, unix_getgrgid,
      unix_alarm, unix_chmod, unix_chown, unix_chroot, unix_dup, unix_dup2,
      unix_execv, unix_execve, unix_execvp, unix_execvpe, unix_fork, unix_getegid,
      unix_geteuid, unix_getgid, unix_getlogin, unix_getuid, unix_gethostname,
      unix_getpid, unix_getppid, unix_mkfifo, unix_pipe, unix_setgid, unix_setsid,
      unix_setuid, unix_spawn, unix_umask]"

text \<open>The number of parameters in the signature of the function.\<close>

primrec prim_arity :: "c_primitive \<Rightarrow> nat" where
  "prim_arity (Prim1 f) = 1"
| "prim_arity (Prim2 f) = 2"
| "prim_arity (Prim3 f) = 3"
| "prim_arity (Prim4 f) = 4"
| "prim_arity (Prim5 f) = 5"

definition arity :: "shim \<Rightarrow> nat" where
  "arity e = prim_arity (c_fun e)"

text \<open>
  Calling a primitive on a vector of arguments, in a process state. A call whose
  number of arguments differs from the signature is not a call of the program (it does
  not compile): \<open>None\<close>.
\<close>

primrec call_prim :: "c_primitive \<Rightarrow> caml_value list \<Rightarrow> process_state \<Rightarrow> caml_outcome option"
where
  "call_prim (Prim1 f) args s =
     (case args of [a1] \<Rightarrow> Some (f a1 s) | _ \<Rightarrow> None)"
| "call_prim (Prim2 f) args s =
     (case args of [a1, a2] \<Rightarrow> Some (f a1 a2 s) | _ \<Rightarrow> None)"
| "call_prim (Prim3 f) args s =
     (case args of [a1, a2, a3] \<Rightarrow> Some (f a1 a2 a3 s) | _ \<Rightarrow> None)"
| "call_prim (Prim4 f) args s =
     (case args of [a1, a2, a3, a4] \<Rightarrow> Some (f a1 a2 a3 a4 s) | _ \<Rightarrow> None)"
| "call_prim (Prim5 f) args s =
     (case args of [a1, a2, a3, a4, a5] \<Rightarrow> Some (f a1 a2 a3 a4 a5 s) | _ \<Rightarrow> None)"

definition call :: "shim \<Rightarrow> caml_value list \<Rightarrow> process_state \<Rightarrow> caml_outcome option" where
  "call e args s = call_prim (c_fun e) args s"

text \<open>The message of the exception an outcome carries, if it carries one.\<close>

fun error_message :: "caml_outcome \<Rightarrow> string option" where
  "error_message (Inl (Invalid_argument m), s) = Some m"
| "error_message (Inl (Failure m), s) = Some m"
| "error_message (Inl (Sys_error m), s) = Some m"
| "error_message (r, s) = None"

text \<open>A process state to run the stubs in: the three standard descriptors open.\<close>

definition fresh_process :: process_state where
  "fresh_process =
     \<lparr>open_fds = [0, 1, 2], signal_mask = [], pending_signals = [],
      file_creation_mask = 18, user_id = 1000, group_id = 1000, file_modes = [],
      written = [], log_lines = []\<rparr>"


section \<open>\<^verbatim>\<open>testsuite/cross/link.c\<close>\<close>

text \<open>
  A \<^verbatim>\<open>char *\<close>: the null pointer, a string literal of the program, the address of the
  local array \<^verbatim>\<open>buf\<close> (with the characters the array holds), or a string owned by
  the C library.
\<close>

datatype char_ptr =
    NULL
  | Literal string
  | Local_buf "char list"
  | Libc_string string

text \<open>
  What \<^verbatim>\<open>init\<close> takes from outside: which of \<^verbatim>\<open>__APPLE__\<close> and \<^verbatim>\<open>__linux__\<close> the
  compiler defines, \<^verbatim>\<open>PATH_MAX\<close> of \<^verbatim>\<open>limits.h\<close>, what \<^verbatim>\<open>getprogname()\<close> returns,
  what the array \<^verbatim>\<open>buf\<close> holds before it is written, and \<^verbatim>\<open>readlink\<close>: from the
  path, the array and its size to the returned count (negative on error) and the
  array afterwards.
\<close>

record platform =
  APPLE :: bool
  linux :: bool
  PATH_MAX :: nat
  getprogname :: char_ptr
  uninitialised :: "char list"
  readlink :: "string \<Rightarrow> char list \<Rightarrow> nat \<Rightarrow> int \<times> char list"

text \<open>
  \<^verbatim>\<open>caml_startup\<close> is external; \<^verbatim>\<open>init\<close> ends by calling it, and the call with its
  argument vector is what \<^verbatim>\<open>init\<close> does.
\<close>

datatype external_call = caml_startup "char_ptr list"

definition init :: "platform \<Rightarrow> external_call" where
  "init p =
     (let buf = uninitialised p;
          progname = NULL;
          progname = (if APPLE p then getprogname p else progname);
          progname =
            (if linux p then
               (let (n, buf') = readlink p ''/proc/self/exe'' buf (PATH_MAX p)
                in if n \<ge> 0 then Local_buf buf' else progname)
             else progname);
          progname = (if progname = NULL then Literal ''/unknown/program/name'' else progname);
          argv = [progname, NULL]
      in caml_startup argv)"

text \<open>
  What a reader of a \<^verbatim>\<open>char *\<close> finds as a string, as \<^verbatim>\<open>caml_startup\<close> reads
  \<^verbatim>\<open>argv[0]\<close>: the characters up to the first NUL. A literal and a string of the C
  library end in a NUL. An array holds a string only if a NUL is among its characters;
  otherwise the read runs off its end and there is no string, as there is none at the
  null pointer.
\<close>

fun c_string :: "char_ptr \<Rightarrow> string option" where
  "c_string NULL = None"
| "c_string (Literal cs) = Some (takeWhile (\<lambda>c. c \<noteq> CHR 0x00) cs)"
| "c_string (Libc_string cs) = Some (takeWhile (\<lambda>c. c \<noteq> CHR 0x00) cs)"
| "c_string (Local_buf cs) =
     (if CHR 0x00 \<in> set cs then Some (takeWhile (\<lambda>c. c \<noteq> CHR 0x00) cs) else None)"

text \<open>The program name a call of \<^verbatim>\<open>caml_startup\<close> hands over: the string at slot 0.\<close>

fun program_name :: "external_call \<Rightarrow> string option" where
  "program_name (caml_startup []) = None"
| "program_name (caml_startup (progname # rest)) = c_string progname"

text \<open>
  Two Linux platforms to run \<^verbatim>\<open>init\<close> on. On the first, \<^verbatim>\<open>/proc/self/exe\<close> links to
  \<^verbatim>\<open>/bin/prog\<close>: \<^verbatim>\<open>readlink\<close> puts these 9 characters at the start of the array,
  appends no NUL, as \<^verbatim>\<open>readlink\<close> never does, and returns 9; the array comes from the
  stack with no NUL in it. On the second, \<^verbatim>\<open>/proc\<close> is not mounted and \<^verbatim>\<open>readlink\<close>
  fails.
\<close>

definition linux_proc :: platform where
  "linux_proc =
     \<lparr>APPLE = False, linux = True, PATH_MAX = 4096, getprogname = NULL,
      uninitialised = replicate 4096 (CHR ''?''),
      readlink = (\<lambda>path buf size. (9, ''/bin/prog'' @ drop 9 buf))\<rparr>"

definition linux_no_proc :: platform where
  "linux_no_proc =
     \<lparr>APPLE = False, linux = True, PATH_MAX = 4096, getprogname = NULL,
      uninitialised = replicate 4096 (CHR ''?''), readlink = (\<lambda>path buf size. (- 1, buf))\<rparr>"


section \<open>Facts about the macros and the catalog\<close>

lemmas unix_defs =
  unix_wait_def unix_waitpid_def unix_sigprocmask_def unix_sigpending_def
  unix_sigsuspend_def unix_kill_def unix_getpwnam_def unix_getpwuid_def
  unix_getgrnam_def unix_getgrgid_def unix_alarm_def unix_chmod_def unix_chown_def
  unix_chroot_def unix_dup_def unix_dup2_def unix_execv_def unix_execve_def
  unix_execvp_def unix_execvpe_def unix_fork_def unix_getegid_def unix_geteuid_def
  unix_getgid_def unix_getlogin_def unix_getuid_def unix_gethostname_def
  unix_getpid_def unix_getppid_def unix_mkfifo_def unix_pipe_def unix_setgid_def
  unix_setsid_def unix_setuid_def unix_spawn_def unix_umask_def

lemmas UNAVAILABLE_defs =
  UNAVAILABLE1_def UNAVAILABLE2_def UNAVAILABLE3_def UNAVAILABLE4_def UNAVAILABLE5_def

lemma arity_UNAVAILABLE [simp]:
  "arity (UNAVAILABLE1 c n) = 1" "arity (UNAVAILABLE2 c n) = 2"
  "arity (UNAVAILABLE3 c n) = 3" "arity (UNAVAILABLE4 c n) = 4"
  "arity (UNAVAILABLE5 c n) = 5"
  by (simp_all add: arity_def UNAVAILABLE_defs)

lemma caml_name_UNAVAILABLE [simp]:
  "caml_name (UNAVAILABLE1 c n) = n" "caml_name (UNAVAILABLE2 c n) = n"
  "caml_name (UNAVAILABLE3 c n) = n" "caml_name (UNAVAILABLE4 c n) = n"
  "caml_name (UNAVAILABLE5 c n) = n"
  by (simp_all add: UNAVAILABLE_defs)

lemma c_name_UNAVAILABLE [simp]:
  "c_name (UNAVAILABLE1 c n) = c" "c_name (UNAVAILABLE2 c n) = c"
  "c_name (UNAVAILABLE3 c n) = c" "c_name (UNAVAILABLE4 c n) = c"
  "c_name (UNAVAILABLE5 c n) = c"
  by (simp_all add: UNAVAILABLE_defs)

lemma call_UNAVAILABLE1:
  "length args = 1 \<Longrightarrow>
   call (UNAVAILABLE1 c n) args s = Some (Inl (Invalid_argument (n @ '' not available'')), s)"
  by (auto simp: length_Suc_conv call_def UNAVAILABLE1_def caml_invalid_argument_def)

lemma call_UNAVAILABLE2:
  "length args = 2 \<Longrightarrow>
   call (UNAVAILABLE2 c n) args s = Some (Inl (Invalid_argument (n @ '' not available'')), s)"
  by (auto simp: numeral_2_eq_2 length_Suc_conv call_def UNAVAILABLE2_def
      caml_invalid_argument_def)

lemma call_UNAVAILABLE3:
  "length args = 3 \<Longrightarrow>
   call (UNAVAILABLE3 c n) args s = Some (Inl (Invalid_argument (n @ '' not vailable'')), s)"
  by (auto simp: numeral_3_eq_3 length_Suc_conv call_def UNAVAILABLE3_def
      caml_invalid_argument_def)

lemma call_UNAVAILABLE5:
  "length args = 5 \<Longrightarrow>
   call (UNAVAILABLE5 c n) args s = Some (Inl (Invalid_argument (n @ '' not available'')), s)"
  by (auto simp: eval_nat_numeral length_Suc_conv call_def UNAVAILABLE5_def
      caml_invalid_argument_def)

lemmas call_UNAVAILABLE =
  call_UNAVAILABLE1 call_UNAVAILABLE2 call_UNAVAILABLE3 call_UNAVAILABLE5

text \<open>
  Every stub of the file, called with as many arguments as its signature has, raises
  \<^verbatim>\<open>Invalid_argument\<close> in the state it was called in. The message is the OCaml name
  followed by the suffix of the macro that made the stub.
\<close>

lemma shim_fails_all:
  "\<forall>e \<in> set catalog. \<forall>args s. length args = arity e \<longrightarrow>
     call e args s =
       Some (Inl (Invalid_argument
         (caml_name e @ (if arity e = 3 then '' not vailable'' else '' not available''))), s)"
  unfolding catalog_def unix_defs
  by (simp add: call_UNAVAILABLE)

lemma shim_fails:
  "e \<in> set catalog \<Longrightarrow> length args = arity e \<Longrightarrow>
     call e args s =
       Some (Inl (Invalid_argument
         (caml_name e @ (if arity e = 3 then '' not vailable'' else '' not available''))), s)"
  using shim_fails_all by blast

lemma wrong_arity_no_call:
  "length args \<noteq> arity e \<Longrightarrow> call e args s = None"
  unfolding call_def arity_def
  by (cases "c_fun e") (auto split: list.splits)

lemma shim_message_prefix_all:
  "\<forall>e \<in> set catalog. \<forall>args s. length args = arity e \<longrightarrow>
     (\<exists>msg. call e args s = Some (Inl (Invalid_argument msg), s) \<and> take 5 msg = ''Unix.'')"
  unfolding catalog_def unix_defs
  by (simp add: call_UNAVAILABLE)

lemma catalog_prefix_all: "\<forall>e \<in> set catalog. take 5 (caml_name e) = ''Unix.''"
  unfolding catalog_def unix_defs by simp

lemma catalog_arity_all: "\<forall>e \<in> set catalog. 1 \<le> arity e \<and> arity e \<le> 5"
  unfolding catalog_def unix_defs by simp


section \<open>The stubs fail\<close>

text \<open>
  C7. Calling the stub of \<^verbatim>\<open>fork\<close> on its one argument raises with the message
  \<^verbatim>\<open>Unix.fork not available\<close>, and calling the stub of \<^verbatim>\<open>spawn\<close> on any five
  arguments raises with the message \<^verbatim>\<open>Unix.spawn not available\<close>, whatever the
  arguments and the process state are.
\<close>

theorem fork_spawn_not_available:
  "call unix_fork [a] s = Some (Inl (Invalid_argument ''Unix.fork not available''), s)
   \<and> call unix_spawn [a1, a2, a3, a4, a5] s' =
       Some (Inl (Invalid_argument ''Unix.spawn not available''), s')"
  by (simp add: unix_fork_def unix_spawn_def call_UNAVAILABLE)

text \<open>
  C1. The claim: every stub, called with as many arguments as its signature has, raises
  with the message that is its OCaml name followed by \<^verbatim>\<open> not available\<close>. The stub of
  \<^verbatim>\<open>chown\<close> is in the catalog, is called here with its three arguments, and raises
  with the message \<^verbatim>\<open>Unix.chown not vailable\<close>, which is not its name followed by
  \<^verbatim>\<open> not available\<close>: the suffix in the macro \<^verbatim>\<open>UNAVAILABLE3\<close> is misspelt.
\<close>

theorem chown_message_misspelt:
  "call unix_chown [0, 0, 0] fresh_process
     = Some (Inl (Invalid_argument ''Unix.chown not vailable''), fresh_process)
   \<and> unix_chown \<in> set catalog \<and> length [0, 0, 0 :: caml_value] = arity unix_chown
   \<and> ''Unix.chown not vailable'' \<noteq> caml_name unix_chown @ '' not available''"
  by (simp add: catalog_def) (simp add: unix_chown_def call_UNAVAILABLE)

text \<open>
  C2. Every call of a stub of the catalog fails: called with as many arguments as its
  signature has, whatever they are and in whatever state, the stub raises an exception,
  and it never returns a value.
\<close>

theorem shim_never_returns:
  assumes "e \<in> set catalog" and "length args = arity e"
  shows "(\<exists>x s'. call e args s = Some (Inl x, s'))
         \<and> (\<forall>v s'. call e args s \<noteq> Some (Inr v, s'))"
  using shim_fails [OF assms, of s] by simp

theorem shim_never_returns_witness:
  "unix_kill \<in> set catalog \<and> length [9, 15 :: caml_value] = arity unix_kill
   \<and> (\<exists>x s'. call unix_kill [9, 15] fresh_process = Some (Inl x, s'))
   \<and> (\<forall>v s'. call unix_kill [9, 15] fresh_process \<noteq> Some (Inr v, s'))"
proof -
  have m: "unix_kill \<in> set catalog" by (simp add: catalog_def)
  have l: "length [9, 15 :: caml_value] = arity unix_kill" by (simp add: unix_kill_def)
  show ?thesis using m l shim_never_returns [OF m l, of fresh_process] by simp
qed

text \<open>
  C3. The entry points of the file, in its order, with the OCaml name and the number of
  parameters of each: \<^verbatim>\<open>wait\<close> 1, \<^verbatim>\<open>waitpid\<close> 2, \<^verbatim>\<open>sigprocmask\<close> 2, ... ,
  \<^verbatim>\<open>spawn\<close> 5, \<^verbatim>\<open>umask\<close> 1, as the catalog of the specification lists them; and every
  number of parameters lies between 1 and 5.
\<close>

theorem shim_arities:
  "map (\<lambda>e. (c_name e, caml_name e, arity e)) catalog =
     [(''unix_wait'', ''Unix.wait'', 1), (''unix_waitpid'', ''Unix.waitpid'', 2),
      (''unix_sigprocmask'', ''Unix.sigprocmask'', 2),
      (''unix_sigpending'', ''Unix.sigpending'', 1),
      (''unix_sigsuspend'', ''Unix.sigsuspend'', 1), (''unix_kill'', ''Unix.kill'', 2),
      (''unix_getpwnam'', ''Unix.getpwnam'', 1), (''unix_getpwuid'', ''Unix.getpwuid'', 1),
      (''unix_getgrnam'', ''Unix.getgrnam'', 1), (''unix_getgrgid'', ''Unix.getgrgid'', 1),
      (''unix_alarm'', ''Unix.alarm'', 1), (''unix_chmod'', ''Unix.chmod'', 2),
      (''unix_chown'', ''Unix.chown'', 3), (''unix_chroot'', ''Unix.chroot'', 1),
      (''unix_dup'', ''Unix.dup'', 2), (''unix_dup2'', ''Unix.dup2'', 3),
      (''unix_execv'', ''Unix.execv'', 2), (''unix_execve'', ''Unix.execve'', 3),
      (''unix_execvp'', ''Unix.execvp'', 2), (''unix_execvpe'', ''Unix.execvpe'', 3),
      (''unix_fork'', ''Unix.fork'', 1), (''unix_getegid'', ''Unix.getegid'', 1),
      (''unix_geteuid'', ''Unix.geteuid'', 1), (''unix_getgid'', ''Unix.getgid'', 1),
      (''unix_getlogin'', ''Unix.getlogin'', 1), (''unix_getuid'', ''Unix.getuid'', 1),
      (''unix_gethostname'', ''Unix.gethostname'', 1), (''unix_getpid'', ''Unix.getpid'', 1),
      (''unix_getppid'', ''Unix.getppid'', 1), (''unix_mkfifo'', ''Unix.mkfifo'', 2),
      (''unix_pipe'', ''Unix.pipe'', 2), (''unix_setgid'', ''Unix.setgid'', 1),
      (''unix_setsid'', ''Unix.setsid'', 1), (''unix_setuid'', ''Unix.setuid'', 1),
      (''unix_spawn'', ''Unix.spawn'', 5), (''unix_umask'', ''Unix.umask'', 1)]
   \<and> (\<forall>e \<in> set catalog. 1 \<le> arity e \<and> arity e \<le> 5)"
  apply (rule conjI)
  subgoal unfolding catalog_def unix_defs by simp
  subgoal by (rule catalog_arity_all)
  done

theorem shim_arities_witness:
  "unix_spawn \<in> set catalog \<and> 1 \<le> arity unix_spawn \<and> arity unix_spawn \<le> 5
   \<and> arity (catalog ! 34) = 5 \<and> c_name (catalog ! 34) = ''unix_spawn''"
proof -
  have m: "unix_spawn \<in> set catalog" by (simp add: catalog_def)
  have r: "\<forall>e \<in> set catalog. 1 \<le> arity e \<and> arity e \<le> 5"
    using shim_arities by (rule conjunct2)
  have "map (\<lambda>e. (c_name e, caml_name e, arity e)) catalog ! 34 = (''unix_spawn'', ''Unix.spawn'', 5)"
    using shim_arities by simp
  moreover have "(34::nat) < length catalog" by (simp add: catalog_def)
  ultimately have "arity (catalog ! 34) = 5 \<and> c_name (catalog ! 34) = ''unix_spawn''"
    by simp
  with m r show ?thesis by blast
qed

text \<open>
  C4. Any two calls of the same stub of the catalog, with possibly different arguments
  and in possibly different states, raise with one and the same message.
\<close>

theorem shim_message_deterministic:
  assumes "e \<in> set catalog" and "length args1 = arity e" and "length args2 = arity e"
  shows "\<exists>msg. call e args1 s1 = Some (Inl (Invalid_argument msg), s1)
              \<and> call e args2 s2 = Some (Inl (Invalid_argument msg), s2)"
  using shim_fails [OF assms(1,2), of s1] shim_fails [OF assms(1,3), of s2] by simp

theorem shim_message_deterministic_witness:
  "unix_chmod \<in> set catalog \<and> length [1, 420 :: caml_value] = arity unix_chmod
   \<and> length [7, 0 :: caml_value] = arity unix_chmod
   \<and> (\<exists>msg. call unix_chmod [1, 420] fresh_process = Some (Inl (Invalid_argument msg), fresh_process)
          \<and> call unix_chmod [7, 0] (fresh_process\<lparr>user_id := 0\<rparr>)
              = Some (Inl (Invalid_argument msg), fresh_process\<lparr>user_id := 0\<rparr>))"
proof -
  have m: "unix_chmod \<in> set catalog" by (simp add: catalog_def)
  have l1: "length [1, 420 :: caml_value] = arity unix_chmod" by (simp add: unix_chmod_def)
  have l2: "length [7, 0 :: caml_value] = arity unix_chmod" by (simp add: unix_chmod_def)
  show ?thesis
    using m l1 l2
      shim_message_deterministic [OF m l1 l2, of fresh_process "fresh_process\<lparr>user_id := 0\<rparr>"]
    by simp
qed

text \<open>
  C5. Every stub of the catalog fails with the same kind of error, the exception
  \<^verbatim>\<open>Invalid_argument\<close>, and with no other; the message it carries starts with the OCaml
  name of the primitive.
\<close>

theorem shim_error_kind:
  assumes "e \<in> set catalog" and "length args = arity e"
  shows "\<exists>msg. call e args s = Some (Inl (Invalid_argument msg), s) \<and> prefix (caml_name e) msg"
  using shim_fails [OF assms, of s] by simp

theorem shim_error_kind_witness:
  "unix_dup2 \<in> set catalog \<and> length [3, 4, 5 :: caml_value] = arity unix_dup2
   \<and> (\<exists>msg. call unix_dup2 [3, 4, 5] fresh_process = Some (Inl (Invalid_argument msg), fresh_process)
          \<and> prefix (caml_name unix_dup2) msg)"
proof -
  have m: "unix_dup2 \<in> set catalog" by (simp add: catalog_def)
  have l: "length [3, 4, 5 :: caml_value] = arity unix_dup2" by (simp add: unix_dup2_def)
  show ?thesis using m l shim_error_kind [OF m l, of fresh_process] by simp
qed

text \<open>
  C6. A call of a stub of the catalog does nothing but raise: the process state in
  which the exception arrives is the state in which the stub was called (descriptors,
  signals, identities, file modes, what was written and what was logged are as before).
\<close>

theorem shim_no_effect:
  assumes "e \<in> set catalog" and "length args = arity e"
  shows "\<exists>x. call e args s = Some (Inl x, s)"
  using shim_fails [OF assms, of s] by simp

theorem shim_no_effect_witness:
  "unix_umask \<in> set catalog \<and> length [63 :: caml_value] = arity unix_umask
   \<and> (\<exists>x. call unix_umask [63] fresh_process = Some (Inl x, fresh_process))"
proof -
  have m: "unix_umask \<in> set catalog" by (simp add: catalog_def)
  have l: "length [63 :: caml_value] = arity unix_umask" by (simp add: unix_umask_def)
  show ?thesis using m l shim_no_effect [OF m l, of fresh_process] by simp
qed

text \<open>
  C8. The catalog has 36 entries, no two of them have the same OCaml name, and no two of
  them fail with the same outcome, hence with the same message.
\<close>

theorem canonical_names_unique:
  "length catalog = 36 \<and> distinct (map caml_name catalog)
   \<and> distinct (map (\<lambda>e. call e (replicate (arity e) 0) s) catalog)"
  unfolding catalog_def unix_defs
  by (simp add: call_UNAVAILABLE)

text \<open>
  C10. The OCaml name of every stub of the catalog starts with \<^verbatim>\<open>Unix.\<close>, and so does
  the message of the exception the stub raises.
\<close>

theorem names_start_with_Unix:
  assumes "e \<in> set catalog" and "length args = arity e"
  shows "take 5 (caml_name e) = ''Unix.''
         \<and> (\<exists>msg. call e args s = Some (Inl (Invalid_argument msg), s) \<and> take 5 msg = ''Unix.'')"
  using assms catalog_prefix_all shim_message_prefix_all by blast

theorem names_start_with_Unix_witness:
  "unix_execve \<in> set catalog \<and> length [1, 2, 3 :: caml_value] = arity unix_execve
   \<and> take 5 (caml_name unix_execve) = ''Unix.''
   \<and> (\<exists>msg. call unix_execve [1, 2, 3] fresh_process = Some (Inl (Invalid_argument msg), fresh_process)
          \<and> take 5 msg = ''Unix.'')"
proof -
  have m: "unix_execve \<in> set catalog" by (simp add: catalog_def)
  have l: "length [1, 2, 3 :: caml_value] = arity unix_execve" by (simp add: unix_execve_def)
  show ?thesis using m l names_start_with_Unix [OF m l, of fresh_process] by simp
qed


section \<open>The bootstrap of the cross tests\<close>

text \<open>
  What \<^verbatim>\<open>init\<close> passes to \<^verbatim>\<open>caml_startup\<close>, case by case. The vector has two
  slots and the second is \<^verbatim>\<open>NULL\<close>. The first is the address of \<^verbatim>\<open>buf\<close>, as
  \<^verbatim>\<open>readlink\<close> left it, when \<^verbatim>\<open>__linux__\<close> is defined and \<^verbatim>\<open>readlink\<close> did not
  fail; otherwise what \<^verbatim>\<open>getprogname()\<close> returned, when \<^verbatim>\<open>__APPLE__\<close> is defined
  and that is not \<^verbatim>\<open>NULL\<close>; otherwise the literal \<^verbatim>\<open>/unknown/program/name\<close>.
\<close>

lemma init_slots:
  "init p =
     caml_startup
       [if linux p \<and> 0 \<le> fst (readlink p ''/proc/self/exe'' (uninitialised p) (PATH_MAX p))
        then Local_buf (snd (readlink p ''/proc/self/exe'' (uninitialised p) (PATH_MAX p)))
        else if APPLE p \<and> getprogname p \<noteq> NULL then getprogname p
        else Literal ''/unknown/program/name'',
        NULL]"
  by (simp add: init_def Let_def split: prod.splits)

lemma init_slot0_not_NULL:
  "\<exists>progname. progname \<noteq> NULL \<and> init p = caml_startup [progname, NULL]"
  by (simp add: init_slots)

lemma init_fallback_name:
  "init linux_no_proc = caml_startup [Literal ''/unknown/program/name'', NULL]
   \<and> program_name (init linux_no_proc) = Some ''/unknown/program/name''"
  by (simp add: init_slots linux_no_proc_def)

text \<open>
  C9. The claim: slot 0 of the vector that \<^verbatim>\<open>init\<close> passes to \<^verbatim>\<open>caml_startup\<close> is
  always a program name. On Linux with \<^verbatim>\<open>/proc/self/exe\<close> linking to \<^verbatim>\<open>/bin/prog\<close>,
  \<^verbatim>\<open>readlink\<close> succeeds with 9, \<^verbatim>\<open>init\<close> passes the address of \<^verbatim>\<open>buf\<close> with
  nothing written behind the 9 characters, and the array holds no NUL: slot 0 is not
  \<^verbatim>\<open>NULL\<close>, and no string, hence no program name, is to be read there. \<^verbatim>\<open>init\<close> does
  not terminate what \<^verbatim>\<open>readlink\<close> wrote.
\<close>

theorem init_progname_not_terminated:
  "linux linux_proc
   \<and> readlink linux_proc ''/proc/self/exe'' (uninitialised linux_proc) (PATH_MAX linux_proc)
       = (9, ''/bin/prog'' @ replicate 4087 (CHR ''?''))
   \<and> init linux_proc = caml_startup [Local_buf (''/bin/prog'' @ replicate 4087 (CHR ''?'')), NULL]
   \<and> program_name (init linux_proc) = None
   \<and> program_name (init linux_proc) \<noteq> Some ''/bin/prog''"
  by (simp add: init_def linux_proc_def)

end
